theory Spec2Isabelle
  imports Complex_Main
begin

section \<open>Data model shared by the three stages\<close>

text \<open>
  A pandas cell as the three scripts see it: a missing value (NaN / None), a finite
  number, or a string. Finite floats are modelled as exact rationals; the infinities
  are not part of the model.
\<close>

datatype cell = Null | Num rat | Str string

datatype py_error =
    KeyError string
  | TypeError
  | ValueError
  | SystemExit

text \<open>
  A dataframe is held column by column, in column order, next to the length of its
  index. \<open>wf_df\<close> says that every column has one cell per index entry.
\<close>

record dataframe =
  n_rows :: nat
  cols :: "(string \<times> cell list) list"

definition wf_df :: "dataframe \<Rightarrow> bool" where
  "wf_df df = list_all (\<lambda>(n, c). length c = n_rows df) (cols df)"

definition columns :: "dataframe \<Rightarrow> string list" where
  "columns df = map fst (cols df)"

text \<open>\<open>df[name]\<close>: the column, or KeyError.\<close>

definition get_col :: "dataframe \<Rightarrow> string \<Rightarrow> py_error + cell list" where
  "get_col df name =
     (case map_of (cols df) name of None \<Rightarrow> Inl (KeyError name) | Some c \<Rightarrow> Inr c)"

text \<open>\<open>df[name] = values\<close>: replaces the column in place, or appends a new one.\<close>

fun assign :: "(string \<times> cell list) list \<Rightarrow> string \<Rightarrow> cell list \<Rightarrow> (string \<times> cell list) list" where
  "assign [] name vals = [(name, vals)]"
| "assign ((n, c) # rest) name vals =
     (if n = name then (n, vals) # rest else (n, c) # assign rest name vals)"

definition set_col :: "dataframe \<Rightarrow> string \<Rightarrow> cell list \<Rightarrow> dataframe" where
  "set_col df name vals = df\<lparr>cols := assign (cols df) name vals\<rparr>"

definition and_then :: "'e + 'a \<Rightarrow> ('a \<Rightarrow> 'e + 'b) \<Rightarrow> 'e + 'b" where
  "and_then r f = (case r of Inl e \<Rightarrow> Inl e | Inr x \<Rightarrow> f x)"

definition is_str :: "cell \<Rightarrow> bool" where
  "is_str c = (case c of Str _ \<Rightarrow> True | _ \<Rightarrow> False)"

definition lower_char :: "char \<Rightarrow> char" where
  "lower_char c =
     (let n = (of_char c :: nat) in if 65 \<le> n \<and> n \<le> 90 then char_of (n + 32) else c)"

definition lower :: "string \<Rightarrow> string" where
  "lower s = map lower_char s"

section \<open>Transform stage (transform.py)\<close>

text \<open>
  \<open>pd.to_numeric(column, errors='coerce')\<close>. What pandas accepts as a numeric literal
  is the library's business: the parser of strings is the parameter \<open>parse\<close>.
\<close>

definition to_numeric :: "(string \<Rightarrow> rat option) \<Rightarrow> cell \<Rightarrow> cell" where
  "to_numeric parse c =
     (case c of
        Null \<Rightarrow> Null
      | Num x \<Rightarrow> Num x
      | Str s \<Rightarrow> (case parse s of None \<Rightarrow> Null | Some x \<Rightarrow> Num x))"

definition numbers :: "cell list \<Rightarrow> rat list" where
  "numbers cs = concat (map (\<lambda>c. case c of Num x \<Rightarrow> [x] | _ \<Rightarrow> []) cs)"

text \<open>\<open>Series.mean()\<close> skips missing values; with nothing left it is NaN.\<close>

definition mean :: "cell list \<Rightarrow> cell" where
  "mean cs =
     (let xs = numbers cs
      in if xs = [] then Null else Num (sum_list xs / of_nat (length xs)))"

text \<open>\<open>fillna(v)\<close> on one column; filling with NaN changes nothing.\<close>

definition fillna :: "cell \<Rightarrow> cell list \<Rightarrow> cell list" where
  "fillna v cs = map (\<lambda>c. if c = Null then v else c) cs"

text \<open>
  \<open>pd.cut(column, bins, labels, right)\<close>. The last edge of both bin lists in the
  source is \<open>float('inf')\<close>.
\<close>

datatype edge = Fin rat | Inf

fun edge_less :: "edge \<Rightarrow> rat \<Rightarrow> bool" where
  "edge_less (Fin b) x = (b < x)"
| "edge_less Inf x = False"

fun edge_le :: "edge \<Rightarrow> rat \<Rightarrow> bool" where
  "edge_le (Fin b) x = (b \<le> x)"
| "edge_le Inf x = False"

fun less_edge :: "rat \<Rightarrow> edge \<Rightarrow> bool" where
  "less_edge x (Fin b) = (x < b)"
| "less_edge x Inf = True"

fun le_edge :: "rat \<Rightarrow> edge \<Rightarrow> bool" where
  "le_edge x (Fin b) = (x \<le> b)"
| "le_edge x Inf = True"

definition in_bin :: "bool \<Rightarrow> edge \<Rightarrow> edge \<Rightarrow> rat \<Rightarrow> bool" where
  "in_bin right lo hi x =
     (if right then edge_less lo x \<and> le_edge x hi else edge_le lo x \<and> less_edge x hi)"

fun cut_value :: "bool \<Rightarrow> edge list \<Rightarrow> string list \<Rightarrow> rat \<Rightarrow> cell" where
  "cut_value right (lo # hi # bins) (l # labels) x =
     (if in_bin right lo hi x then Str l else cut_value right (hi # bins) labels x)"
| "cut_value right bins labels x = Null"

definition cut_cell :: "bool \<Rightarrow> edge list \<Rightarrow> string list \<Rightarrow> cell \<Rightarrow> cell" where
  "cut_cell right bins labels c =
     (case c of Num x \<Rightarrow> cut_value right bins labels x | _ \<Rightarrow> Null)"

text \<open>A column that holds a string cannot be compared with the edges: TypeError.\<close>

definition pd_cut :: "bool \<Rightarrow> edge list \<Rightarrow> string list \<Rightarrow> cell list \<Rightarrow> py_error + cell list" where
  "pd_cut right bins labels cs =
     (if list_ex is_str cs then Inl TypeError
      else Inr (map (cut_cell right bins labels) cs))"

definition tenure_bins :: "edge list" where
  "tenure_bins = [Fin 0, Fin 13, Fin 37, Fin 61, Inf]"

definition tenure_labels :: "string list" where
  "tenure_labels = [''New'', ''Regular'', ''Loyal'', ''Champion'']"

definition charge_bins :: "edge list" where
  "charge_bins = [Fin 0, Fin 30, Fin 70, Inf]"

definition charge_labels :: "string list" where
  "charge_labels = [''Low'', ''Medium'', ''High'']"

definition tenure_group :: "cell \<Rightarrow> cell" where
  "tenure_group = cut_cell False tenure_bins tenure_labels"

definition monthly_charge_segment :: "cell \<Rightarrow> cell" where
  "monthly_charge_segment = cut_cell True charge_bins charge_labels"

text \<open>\<open>Series.map(dict)\<close>: a value that is not a key of the dict maps to NaN.\<close>

definition map_dict :: "(string \<times> rat) list \<Rightarrow> cell \<Rightarrow> cell" where
  "map_dict d c =
     (case c of
        Str s \<Rightarrow> (case map_of d s of None \<Rightarrow> Null | Some v \<Rightarrow> Num v)
      | _ \<Rightarrow> Null)"

definition internet_dict :: "(string \<times> rat) list" where
  "internet_dict = [(''DSL'', 1), (''Fiber optic'', 1), (''No'', 0)]"

definition multiline_dict :: "(string \<times> rat) list" where
  "multiline_dict = [(''Yes'', 1), (''No'', 0), (''No phone service'', 0)]"

definition contract_dict :: "(string \<times> rat) list" where
  "contract_dict = [(''Month-to-month'', 0), (''One year'', 1), (''Two year'', 2)]"

definition contract_type_code :: "cell \<Rightarrow> cell" where
  "contract_type_code = map_dict contract_dict"

text \<open>\<open>df.drop(columns=names)\<close>: KeyError when a name is not a column.\<close>

definition drop_columns :: "dataframe \<Rightarrow> string list \<Rightarrow> py_error + dataframe" where
  "drop_columns df names =
     (case filter (\<lambda>n. n \<notin> set (columns df)) names of
        [] \<Rightarrow> Inr (df\<lparr>cols := filter (\<lambda>(n, c). n \<notin> set names) (cols df)\<rparr>)
      | n # _ \<Rightarrow> Inl (KeyError n))"

definition lower_columns :: "dataframe \<Rightarrow> dataframe" where
  "lower_columns df = df\<lparr>cols := map (\<lambda>(n, c). (lower n, c)) (cols df)\<rparr>"

text \<open>
  \<open>transform_data\<close>, from the dataframe that \<open>read_csv\<close> delivers to the dataframe
  that \<open>to_csv\<close> writes to the staged file.
\<close>

definition impute_total :: "(string \<Rightarrow> rat option) \<Rightarrow> cell list \<Rightarrow> cell list" where
  "impute_total parse tc =
     (let coerced = map (to_numeric parse) tc
      in fillna (mean coerced) coerced)"

definition transform_data :: "(string \<Rightarrow> rat option) \<Rightarrow> dataframe \<Rightarrow> py_error + dataframe" where
  "transform_data parse df =
     and_then (get_col df ''TotalCharges'') (\<lambda>tc.
     let df1 = set_col df ''TotalCharges'' (impute_total parse tc) in
     and_then (get_col df1 ''tenure'') (\<lambda>tenure.
     and_then (pd_cut False tenure_bins tenure_labels tenure) (\<lambda>tg.
     let df2 = set_col df1 ''tenure_group'' tg in
     and_then (get_col df2 ''MonthlyCharges'') (\<lambda>monthly.
     and_then (pd_cut True charge_bins charge_labels monthly) (\<lambda>seg.
     let df3 = set_col df2 ''monthly_charge_segment'' seg in
     and_then (get_col df3 ''InternetService'') (\<lambda>internet.
     let df4 = set_col df3 ''has_internet_service'' (map (map_dict internet_dict) internet) in
     and_then (get_col df4 ''MultipleLines'') (\<lambda>lines.
     let df5 = set_col df4 ''is_multi_line_user'' (map (map_dict multiline_dict) lines) in
     and_then (get_col df5 ''Contract'') (\<lambda>contract.
     let df6 = set_col df5 ''contract_type_code'' (map contract_type_code contract) in
     and_then (drop_columns df6 [''customerID'', ''gender'']) (\<lambda>df7.
     Inr (lower_columns df7))))))))))"


text \<open>
  The columns of the staged dataframe, written out: the raw columns with TotalCharges
  imputed, the five derived columns assigned in source order, the two dropped columns
  removed, every name in lower case.
\<close>

definition staged_cols ::
  "(string \<Rightarrow> rat option) \<Rightarrow> (string \<times> cell list) list \<Rightarrow> cell list \<Rightarrow> cell list \<Rightarrow> cell list \<Rightarrow>
   cell list \<Rightarrow> cell list \<Rightarrow> cell list \<Rightarrow> (string \<times> cell list) list" where
  "staged_cols parse cs tc tg seg inet ml ct =
     map (\<lambda>(n, c). (lower n, c))
       (filter (\<lambda>(n, c). n \<notin> set [''customerID'', ''gender''])
         (assign (assign (assign (assign (assign (assign cs
            ''TotalCharges'' (impute_total parse tc))
            ''tenure_group'' tg)
            ''monthly_charge_segment'' seg)
            ''has_internet_service'' (map (map_dict internet_dict) inet))
            ''is_multi_line_user'' (map (map_dict multiline_dict) ml))
            ''contract_type_code'' (map contract_type_code ct)))"

subsection \<open>Example inputs\<close>

text \<open>
  An instance of the parser parameter for the examples: it accepts the unsigned
  decimal integers (which pandas accepts too) and nothing else.
\<close>

fun digits_value :: "nat \<Rightarrow> string \<Rightarrow> nat option" where
  "digits_value acc [] = Some acc"
| "digits_value acc (c # cs) =
     (let n = (of_char c :: nat)
      in if 48 \<le> n \<and> n \<le> 57 then digits_value (10 * acc + (n - 48)) cs else None)"

definition parse_digits :: "string \<Rightarrow> rat option" where
  "parse_digits s = (if s = [] then None else map_option of_nat (digits_value 0 s))"

definition raw_example :: dataframe where
  "raw_example = \<lparr>n_rows = 3, cols =
     [(''customerID'', [Str ''A1'', Str ''B2'', Str ''C3'']),
      (''gender'', [Str ''Female'', Str ''Male'', Str ''Male'']),
      (''tenure'', [Num 0, Num 13, Num 61]),
      (''MonthlyCharges'', [Num 30, Num 70, Num (7001 / 100)]),
      (''TotalCharges'', [Str [], Str ''50'', Str ''70'']),
      (''Contract'', [Str ''Month-to-month'', Str ''Two year'', Str ''Bogus'']),
      (''InternetService'', [Str ''DSL'', Str ''No'', Null]),
      (''MultipleLines'', [Str ''Yes'', Str ''No phone service'', Str ''No'']),
      (''Churn'', [Str ''No'', Str ''Yes'', Str ''No''])]\<rparr>"

definition staged_example :: dataframe where
  "staged_example = \<lparr>n_rows = 3, cols =
     [(''tenure'', [Num 0, Num 13, Num 61]),
      (''monthlycharges'', [Num 30, Num 70, Num (7001 / 100)]),
      (''totalcharges'', [Num 60, Num 50, Num 70]),
      (''contract'', [Str ''Month-to-month'', Str ''Two year'', Str ''Bogus'']),
      (''internetservice'', [Str ''DSL'', Str ''No'', Null]),
      (''multiplelines'', [Str ''Yes'', Str ''No phone service'', Str ''No'']),
      (''churn'', [Str ''No'', Str ''Yes'', Str ''No'']),
      (''tenure_group'', [Str ''New'', Str ''Regular'', Str ''Champion'']),
      (''monthly_charge_segment'', [Str ''Low'', Str ''Medium'', Str ''High'']),
      (''has_internet_service'', [Num 1, Num 0, Null]),
      (''is_multi_line_user'', [Num 1, Num 0, Num 0]),
      (''contract_type_code'', [Num 0, Num 2, Null])]\<rparr>"

text \<open>A raw file with a missing tenure and values outside every bucket.\<close>

definition raw_gaps :: dataframe where
  "raw_gaps = \<lparr>n_rows = 2, cols =
     [(''customerID'', [Str ''A1'', Str ''B2'']),
      (''gender'', [Str ''Female'', Str ''Male'']),
      (''tenure'', [Null, Num (- 1)]),
      (''MonthlyCharges'', [Num 0, Num 20]),
      (''TotalCharges'', [Num 10, Num 20]),
      (''Contract'', [Str ''One year'', Str ''Two year'']),
      (''InternetService'', [Str ''DSL'', Str ''No'']),
      (''MultipleLines'', [Str ''Yes'', Str ''No''])]\<rparr>"

definition staged_gaps :: dataframe where
  "staged_gaps = \<lparr>n_rows = 2, cols =
     [(''tenure'', [Null, Num (- 1)]),
      (''monthlycharges'', [Num 0, Num 20]),
      (''totalcharges'', [Num 10, Num 20]),
      (''contract'', [Str ''One year'', Str ''Two year'']),
      (''internetservice'', [Str ''DSL'', Str ''No'']),
      (''multiplelines'', [Str ''Yes'', Str ''No'']),
      (''tenure_group'', [Null, Null]),
      (''monthly_charge_segment'', [Null, Str ''Low'']),
      (''has_internet_service'', [Num 1, Num 0]),
      (''is_multi_line_user'', [Num 1, Num 0]),
      (''contract_type_code'', [Num 1, Num 2])]\<rparr>"

section \<open>Response extractor (etl_analysis.py and validate.py)\<close>

text \<open>
  The Python values a response can be. A dict is its list of items (string keys), an
  object is its list of attributes, and a callable attribute is modelled by what a call
  without arguments does: return a value, or raise (\<open>None\<close>). Lists, tuples, dicts and
  scalars have no attribute named \<open>data\<close> or \<open>json\<close>.
\<close>

datatype pyval =
    PNone
  | PBool bool
  | PInt int
  | PStr string
  | PList "pyval list"
  | PTuple "pyval list"
  | PDict "(string \<times> pyval) list"
  | PCallable "pyval option"
  | PObj "(string \<times> pyval) list"

text \<open>\<open>getattr(res, name, None)\<close>\<close>

definition getattr :: "pyval \<Rightarrow> string \<Rightarrow> pyval" where
  "getattr res name =
     (case res of
        PObj attrs \<Rightarrow> (case map_of attrs name of None \<Rightarrow> PNone | Some v \<Rightarrow> v)
      | _ \<Rightarrow> PNone)"

definition is_dict :: "pyval \<Rightarrow> bool" where
  "is_dict v = (case v of PDict _ \<Rightarrow> True | _ \<Rightarrow> False)"

text \<open>\<open>isinstance(v, dict) and isinstance(v.get("data"), list)\<close>, with the list.\<close>

definition dict_data :: "pyval \<Rightarrow> pyval list option" where
  "dict_data v =
     (case v of
        PDict items \<Rightarrow> (case map_of items ''data'' of Some (PList xs) \<Rightarrow> Some xs | _ \<Rightarrow> None)
      | _ \<Rightarrow> None)"

text \<open>\<open>isinstance(res, (list, tuple))\<close>, with the elements.\<close>

definition seq_items :: "pyval \<Rightarrow> pyval list option" where
  "seq_items v = (case v of PList xs \<Rightarrow> Some xs | PTuple xs \<Rightarrow> Some xs | _ \<Rightarrow> None)"

text \<open>The loop over the elements: the first element that is a list of dicts.\<close>

fun first_list_of_dicts :: "pyval list \<Rightarrow> pyval list option" where
  "first_list_of_dicts [] = None"
| "first_list_of_dicts (item # rest) =
     (case item of
        PList xs \<Rightarrow> if list_all is_dict xs then Some xs else first_list_of_dicts rest
      | _ \<Rightarrow> first_list_of_dicts rest)"

text \<open>
  The last attempt: \<open>res.json()\<close> under \<open>try\<close>, when the attribute is callable; an
  exception, or a result of another shape, falls through to \<open>return []\<close>.
\<close>

definition json_data :: "pyval \<Rightarrow> pyval list" where
  "json_data res =
     (case getattr res ''json'' of
        PCallable (Some j) \<Rightarrow> (case dict_data j of Some xs \<Rightarrow> xs | None \<Rightarrow> [])
      | _ \<Rightarrow> [])"

definition extract_data_from_response :: "pyval \<Rightarrow> pyval list" where
  "extract_data_from_response res =
     (case getattr res ''data'' of
        PList data \<Rightarrow> data
      | _ \<Rightarrow>
       (case dict_data res of
          Some data \<Rightarrow> data
        | None \<Rightarrow>
         (case seq_items res of
            Some items \<Rightarrow>
             (case first_list_of_dicts items of
                Some item \<Rightarrow> item
              | None \<Rightarrow>
               (case items of
                  x # _ \<Rightarrow> if is_dict x then items else json_data res
                | [] \<Rightarrow> json_data res))
          | None \<Rightarrow> json_data res)))"

text \<open>
  The shapes as the specification lists them: an object with a data-list attribute, a
  dict with a data list, a list or tuple that contains a list of dicts or consists of
  dicts, an object whose \<open>json()\<close> yields a dict with a data list.
\<close>

definition is_list :: "pyval \<Rightarrow> bool" where
  "is_list v = (case v of PList _ \<Rightarrow> True | _ \<Rightarrow> False)"

definition is_list_of_dicts :: "pyval \<Rightarrow> bool" where
  "is_list_of_dicts v = (case v of PList xs \<Rightarrow> list_all is_dict xs | _ \<Rightarrow> False)"

definition json_yields_data :: "pyval \<Rightarrow> bool" where
  "json_yields_data res =
     (case getattr res ''json'' of
        PCallable (Some j) \<Rightarrow> dict_data j \<noteq> None
      | _ \<Rightarrow> False)"

definition spec_recognized :: "pyval \<Rightarrow> bool" where
  "spec_recognized res =
     (is_list (getattr res ''data'') \<or>
      dict_data res \<noteq> None \<or>
      (case seq_items res of
         Some items \<Rightarrow> list_ex is_list_of_dicts items \<or> (items \<noteq> [] \<and> list_all is_dict items)
       | None \<Rightarrow> False) \<or>
      json_yields_data res)"

section \<open>Validation stage (validate.py)\<close>

definition is_num :: "cell \<Rightarrow> bool" where
  "is_num c = (case c of Num _ \<Rightarrow> True | _ \<Rightarrow> False)"

definition dropna :: "cell list \<Rightarrow> cell list" where
  "dropna cs = filter (\<lambda>c. c \<noteq> Null) cs"

definition isna_sum :: "cell list \<Rightarrow> nat" where
  "isna_sum cs = length (filter (\<lambda>c. c = Null) cs)"

text \<open>\<open>Series.unique()\<close>: the distinct values in order of first appearance.\<close>

definition unique :: "'a list \<Rightarrow> 'a list" where
  "unique xs = rev (remdups (rev xs))"

text \<open>
  \<open>sorted(values)\<close> on the cells that are left after \<open>dropna\<close>: numbers by value,
  strings by code point; a list that mixes the two raises TypeError at the first
  comparison across the types.
\<close>

fun str_less :: "string \<Rightarrow> string \<Rightarrow> bool" where
  "str_less [] [] = False"
| "str_less [] (y # ys) = True"
| "str_less (x # xs) [] = False"
| "str_less (x # xs) (y # ys) =
     ((of_char x :: nat) < of_char y \<or> (x = y \<and> str_less xs ys))"

fun cell_le :: "cell \<Rightarrow> cell \<Rightarrow> bool" where
  "cell_le (Num x) (Num y) = (x \<le> y)"
| "cell_le (Str s) (Str t) = (\<not> str_less t s)"
| "cell_le c d = True"

fun insert_sorted :: "cell \<Rightarrow> cell list \<Rightarrow> cell list" where
  "insert_sorted c [] = [c]"
| "insert_sorted c (d # ds) = (if cell_le c d then c # d # ds else d # insert_sorted c ds)"

definition py_sorted :: "cell list \<Rightarrow> py_error + cell list" where
  "py_sorted cs =
     (if list_all is_num cs \<or> list_all is_str cs then Inr (foldr insert_sorted cs [])
      else Inl TypeError)"

text \<open>
  \<open>int(c)\<close>: a float is truncated towards zero; a string goes through Python's
  integer parser, the parameter \<open>str_int\<close>, and raises ValueError when it is refused.
\<close>

definition trunc :: "rat \<Rightarrow> int" where
  "trunc x = (if 0 \<le> x then \<lfloor>x\<rfloor> else \<lceil>x\<rceil>)"

definition py_int :: "(string \<Rightarrow> int option) \<Rightarrow> cell \<Rightarrow> py_error + int" where
  "py_int str_int c =
     (case c of
        Num x \<Rightarrow> Inr (trunc x)
      | Str s \<Rightarrow> (case str_int s of None \<Rightarrow> Inl ValueError | Some i \<Rightarrow> Inr i)
      | Null \<Rightarrow> Inl ValueError)"

text \<open>\<open>[c for c in unique_codes if int(c) not in allowed]\<close>\<close>

fun invalid_codes :: "(string \<Rightarrow> int option) \<Rightarrow> cell list \<Rightarrow> py_error + cell list" where
  "invalid_codes str_int [] = Inr []"
| "invalid_codes str_int (c # cs) =
     and_then (py_int str_int c) (\<lambda>i.
     and_then (invalid_codes str_int cs) (\<lambda>rest.
     Inr (if i \<notin> {0, 1, 2} then c # rest else rest)))"

datatype contract_result =
    ContractCodes (unique_codes: "cell list") (invalid: "cell list")
  | ContractColumnMissing

text \<open>Check 6.\<close>

definition contract_check :: "(string \<Rightarrow> int option) \<Rightarrow> dataframe \<Rightarrow> py_error + contract_result" where
  "contract_check str_int df =
     (case map_of (cols df) ''contract_type_code'' of
        Some codes \<Rightarrow>
          and_then (py_sorted (unique (dropna codes))) (\<lambda>unique_codes.
          and_then (invalid_codes str_int unique_codes) (\<lambda>invalid_codes.
          Inr (ContractCodes unique_codes invalid_codes)))
      | None \<Rightarrow> Inr ContractColumnMissing)"

text \<open>Check 2: per column the number of missing cells, or \<open>None\<close> for an absent column.\<close>

definition missing_checks :: "dataframe \<Rightarrow> (string \<times> nat option) list" where
  "missing_checks df =
     map (\<lambda>col. (col, map_option isna_sum (map_of (cols df) col)))
       [''tenure'', ''MonthlyCharges'', ''TotalCharges'']"

text \<open>Check 3: \<open>len(df.drop_duplicates())\<close>, over the rows of the dataframe.\<close>

definition rows_of :: "dataframe \<Rightarrow> cell list list" where
  "rows_of df =
     map (\<lambda>i. map (\<lambda>(n, c). if i < length c then c ! i else Null) (cols df)) [0 ..< n_rows df]"

definition unique_rows_of :: "dataframe \<Rightarrow> nat" where
  "unique_rows_of df = length (remdups (rows_of df))"

text \<open>Check 5: per segment column the null count and the distinct non-null values.\<close>

definition seg_checks :: "dataframe \<Rightarrow> (string \<times> (nat \<times> cell list) option) list" where
  "seg_checks df =
     map (\<lambda>seg. (seg, map_option (\<lambda>c. (isna_sum c, unique (dropna c))) (map_of (cols df) seg)))
       [''tenure_group'', ''monthly_charge_segment'']"

text \<open>
  The world \<open>validate\<close> reads: the staged file (absent, or the dataframe \<open>read_csv\<close>
  delivers) and the remote store. Without credentials \<open>_get_supabase_client\<close> raises
  SystemExit, which \<open>except Exception\<close> does not catch; any other failure of the query
  is an Exception and is caught.
\<close>

datatype staged_file = Absent | Present dataframe

datatype store = NoCredentials | Unreachable | Response pyval

record report =
  staged_rows :: nat
  unique_rows :: nat
  missing_values :: "(string \<times> nat option) list"
  supabase_rows :: "nat option"
  segments :: "(string \<times> (nat \<times> cell list) option) list"
  contract_report :: contract_result

text \<open>Check 4: the row count of the store, \<open>None\<close> when the check is skipped.\<close>

definition store_rows :: "store \<Rightarrow> py_error + nat option" where
  "store_rows st =
     (case st of
        NoCredentials \<Rightarrow> Inl SystemExit
      | Unreachable \<Rightarrow> Inr None
      | Response res \<Rightarrow> Inr (Some (length (extract_data_from_response res))))"

text \<open>
  \<open>validate\<close>: \<open>Inr None\<close> is the early return for an absent staged file, \<open>Inr (Some r)\<close>
  the run that reaches the final summary with the report \<open>r\<close>, \<open>Inl e\<close> an exception
  that leaves the function.
\<close>

definition validate :: "(string \<Rightarrow> int option) \<Rightarrow> staged_file \<Rightarrow> store \<Rightarrow> py_error + report option" where
  "validate str_int file st =
     (case file of
        Absent \<Rightarrow> Inr None
      | Present df \<Rightarrow>
          and_then (store_rows st) (\<lambda>total_rows_db.
          and_then (contract_check str_int df) (\<lambda>contract_result.
          Inr (Some \<lparr>staged_rows = n_rows df,
                     unique_rows = unique_rows_of df,
                     missing_values = missing_checks df,
                     supabase_rows = total_rows_db,
                     segments = seg_checks df,
                     contract_report = contract_result\<rparr>))))"

subsection \<open>Example inputs\<close>

text \<open>
  An instance of the integer parser for the examples: the unsigned decimal integers.
\<close>

definition int_digits :: "string \<Rightarrow> int option" where
  "int_digits s = (if s = [] then None else map_option int (digits_value 0 s))"

definition staged_fraction_code :: dataframe where
  "staged_fraction_code = \<lparr>n_rows = 3, cols =
     [(''tenure'', [Num 1, Num 2, Num 3]),
      (''contract_type_code'', [Num (3 / 2), Null, Num 2])]\<rparr>"

definition staged_text_code :: dataframe where
  "staged_text_code = \<lparr>n_rows = 1, cols =
     [(''tenure'', [Num 1]),
      (''contract_type_code'', [Str ''abc''])]\<rparr>"

definition staged_bad_code :: dataframe where
  "staged_bad_code = \<lparr>n_rows = 4, cols =
     [(''tenure'', [Num 1, Num 2, Num 2, Num 4]),
      (''contract_type_code'', [Num 7, Null, Num 0, Num 7])]\<rparr>"

section \<open>Analysis stage (etl_analysis.py)\<close>

text \<open>
  \<open>_find_col\<close>: the dict comprehension keeps, for each lower-cased name, the last
  column that has it; the candidates are tried in order.
\<close>

definition lc_items :: "dataframe \<Rightarrow> (string \<times> string) list" where
  "lc_items df = rev (map (\<lambda>c. (lower c, c)) (columns df))"

fun find_in :: "(string \<times> string) list \<Rightarrow> string list \<Rightarrow> string option" where
  "find_in lc [] = None"
| "find_in lc (cand # rest) =
     (case map_of lc (lower cand) of Some c \<Rightarrow> Some c | None \<Rightarrow> find_in lc rest)"

definition find_col :: "dataframe \<Rightarrow> string list \<Rightarrow> string option" where
  "find_col df candidates = find_in (lc_items df) candidates"

definition churn_names :: "string list" where
  "churn_names = [''churn'']"

definition monthly_names :: "string list" where
  "monthly_names = [''monthlycharges'', ''monthly_charges'', ''monthlycharge'', ''monthly_charge'']"

definition contract_names :: "string list" where
  "contract_names = [''contract'', ''contract_type'', ''contract_type_code'']"

definition tenure_group_names :: "string list" where
  "tenure_group_names = [''tenure_group'', ''tenuregroup'']"

definition internet_names :: "string list" where
  "internet_names = [''internetservice'', ''internet_service'']"

text \<open>The column a list of candidates resolves to, when there is one.\<close>

definition resolve :: "dataframe \<Rightarrow> string list \<Rightarrow> cell list option" where
  "resolve df candidates =
     (case find_col df candidates of None \<Rightarrow> None | Some name \<Rightarrow> map_of (cols df) name)"

text \<open>\<open>df.empty\<close>: no rows or no columns.\<close>

definition df_empty :: "dataframe \<Rightarrow> bool" where
  "df_empty df = (n_rows df = 0 \<or> cols df = [])"

text \<open>
  The churn flag: \<open>astype(str).str.strip().str.lower().isin({"yes", "true", "1", "y"})\<close>.
  How pandas prints a number depends on the dtype of the column; it is the parameter
  \<open>num_str\<close>. A missing value prints as \<open>nan\<close>.
\<close>

definition astype_str :: "(rat \<Rightarrow> string) \<Rightarrow> cell \<Rightarrow> string" where
  "astype_str num_str c = (case c of Str s \<Rightarrow> s | Num x \<Rightarrow> num_str x | Null \<Rightarrow> ''nan'')"

definition is_space :: "char \<Rightarrow> bool" where
  "is_space c = (let n = (of_char c :: nat) in (9 \<le> n \<and> n \<le> 13) \<or> (28 \<le> n \<and> n \<le> 32))"

definition strip :: "string \<Rightarrow> string" where
  "strip s = rev (dropWhile is_space (rev (dropWhile is_space s)))"

definition churn_flag :: "(rat \<Rightarrow> string) \<Rightarrow> cell \<Rightarrow> bool" where
  "churn_flag num_str c =
     (lower (strip (astype_str num_str c)) \<in> set [''yes'', ''true'', ''1'', ''y''])"

text \<open>KPI: churn percentage, \<open>None\<close> when no churn column is found.\<close>

definition churn_percentage :: "(rat \<Rightarrow> string) \<Rightarrow> dataframe \<Rightarrow> rat option" where
  "churn_percentage num_str df =
     (case resolve df churn_names of
        None \<Rightarrow> None
      | Some churn \<Rightarrow>
          Some (of_nat (length (filter (churn_flag num_str) churn)) / of_nat (n_rows df) * 100))"

text \<open>
  KPI: average monthly charge per contract value, \<open>groupby(dropna=False).mean()\<close>. A
  monthly column that holds a string cannot be averaged: TypeError. The order in which
  pandas lists the groups is not modelled; groups are listed by first appearance.
\<close>

definition group_cells :: "('k \<times> 'v) list \<Rightarrow> 'k \<Rightarrow> 'v list" where
  "group_cells pairs k = map snd (filter (\<lambda>(k', v). k' = k) pairs)"

definition avg_monthly_by_contract :: "dataframe \<Rightarrow> py_error + (cell \<times> cell) list option" where
  "avg_monthly_by_contract df =
     (case (resolve df monthly_names, resolve df contract_names) of
        (Some monthly, Some contract) \<Rightarrow>
          if list_ex is_str monthly then Inl TypeError
          else
            (let pairs = zip contract monthly
             in Inr (Some (map (\<lambda>k. (k, mean (group_cells pairs k))) (unique (map fst pairs)))))
      | _ \<Rightarrow> Inr None)"

text \<open>KPI: frequency tables, missing values counted under MISSING.\<close>

definition value_counts :: "cell list \<Rightarrow> (cell \<times> nat) list" where
  "value_counts cs = map (\<lambda>v. (v, length (filter (\<lambda>c. c = v) cs))) (unique cs)"

definition tenure_counts :: "dataframe \<Rightarrow> (cell \<times> nat) list option" where
  "tenure_counts df =
     map_option (\<lambda>c. value_counts (fillna (Str ''MISSING'') c)) (resolve df tenure_group_names)"

definition internet_dist :: "dataframe \<Rightarrow> (cell \<times> nat) list option" where
  "internet_dist df =
     map_option (\<lambda>c. value_counts (fillna (Str ''MISSING'') c)) (resolve df internet_names)"

text \<open>
  Pivot: \<open>pd.crosstab(tenure_group.fillna("MISSING"), churn_flag, normalize='index')\<close>,
  then both columns times 100. The crosstab has a column for a flag value only when the
  value occurs in the data: reading the column that is not there raises KeyError.
\<close>

definition pivot_row :: "(cell \<times> bool) list \<Rightarrow> cell \<Rightarrow> cell \<times> rat \<times> rat" where
  "pivot_row pairs g =
     (let flags = group_cells pairs g;
          total = length flags;
          no_churn = length (filter Not flags);
          churn = length (filter id flags)
      in (g, of_nat no_churn / of_nat total * 100, of_nat churn / of_nat total * 100))"

definition churn_vs_tenure ::
  "(rat \<Rightarrow> string) \<Rightarrow> dataframe \<Rightarrow> py_error + (cell \<times> rat \<times> rat) list option" where
  "churn_vs_tenure num_str df =
     (case (resolve df churn_names, resolve df tenure_group_names) of
        (Some churn, Some tenure) \<Rightarrow>
          (let pairs = zip (fillna (Str ''MISSING'') tenure) (map (churn_flag num_str) churn)
           in if \<not> list_ex Not (map snd pairs) then Inl (KeyError ''no_churn_pct'')
              else if \<not> list_ex id (map snd pairs) then Inl (KeyError ''churn_pct'')
              else Inr (Some (map (pivot_row pairs) (unique (map fst pairs)))))
      | _ \<Rightarrow> Inr None)"

text \<open>
  The tabular artifacts, in the order they are written. Every metric is computed before
  the first file is written, so a run that raises has written nothing. The charts are
  drawn afterwards under \<open>try\<close>/\<open>except\<close> and are not part of the model.
\<close>

datatype artifact =
    AnalysisSummary (churn_pct: "rat option") (rows_analyzed: nat)
  | AvgMonthlyByContract "(cell \<times> cell) list"
  | TenureGroupCounts "(cell \<times> nat) list"
  | InternetServiceDistribution "(cell \<times> nat) list"
  | ChurnVsTenurePivot "(cell \<times> rat \<times> rat) list"

text \<open>\<open>if not table.empty: table.to_csv(...)\<close>\<close>

definition written :: "('a list \<Rightarrow> artifact) \<Rightarrow> 'a list option \<Rightarrow> artifact list" where
  "written mk table =
     (case table of None \<Rightarrow> [] | Some rows \<Rightarrow> if rows = [] then [] else [mk rows])"

definition detail_artifacts ::
  "(cell \<times> cell) list option \<Rightarrow> (cell \<times> nat) list option \<Rightarrow> (cell \<times> nat) list option \<Rightarrow>
   (cell \<times> rat \<times> rat) list option \<Rightarrow> artifact list" where
  "detail_artifacts avg tenure internet pivot =
     written AvgMonthlyByContract avg @ written TenureGroupCounts tenure @
     written InternetServiceDistribution internet @ written ChurnVsTenurePivot pivot"

definition analyze_and_save :: "(rat \<Rightarrow> string) \<Rightarrow> dataframe \<Rightarrow> py_error + artifact list" where
  "analyze_and_save num_str df =
     (if df_empty df then Inr []
      else
        and_then (avg_monthly_by_contract df) (\<lambda>avg.
        and_then (churn_vs_tenure num_str df) (\<lambda>pivot.
        Inr (AnalysisSummary (churn_percentage num_str df) (n_rows df) #
             detail_artifacts avg (tenure_counts df) (internet_dist df) pivot))))"

subsection \<open>Example inputs\<close>

text \<open>
  An instance of the number printer for the examples, none of which holds a number in
  its churn column.
\<close>

definition num_str_plain :: "rat \<Rightarrow> string" where
  "num_str_plain x = (if x = 1 then ''1'' else if x = 0 then ''0'' else ''?'')"

text \<open>What \<open>pd.DataFrame([])\<close> is: no rows, no columns.\<close>

definition empty_frame :: dataframe where
  "empty_frame = \<lparr>n_rows = 0, cols = []\<rparr>"

definition store_frame :: dataframe where
  "store_frame = \<lparr>n_rows = 4, cols =
     [(''id'', [Num 1, Num 2, Num 3, Num 4]),
      (''monthlycharges'', [Num 30, Num 70, Null, Num 20]),
      (''contract'', [Str ''One year'', Str ''Two year'', Str ''One year'', Null]),
      (''tenure_group'', [Str ''New'', Null, Str ''New'', Str ''New'']),
      (''internetservice'', [Str ''DSL'', Str ''No'', Null, Str ''DSL'']),
      (''churn'', [Str ''yes'', Str '' Yes '', Str ''no'', Str ''no''])]\<rparr>"

definition id_only_frame :: dataframe where
  "id_only_frame = \<lparr>n_rows = 2, cols = [(''id'', [Num 1, Num 2])]\<rparr>"

definition nobody_churned_frame :: dataframe where
  "nobody_churned_frame = \<lparr>n_rows = 2, cols =
     [(''tenure_group'', [Str ''New'', Str ''Loyal'']),
      (''churn'', [Str ''no'', Str ''no''])]\<rparr>"

section \<open>Properties of the transform stage\<close>

lemma tenure_group_num:
  "tenure_group (Num x) =
     (if x < 0 then Null
      else if x < 13 then Str ''New''
      else if x < 37 then Str ''Regular''
      else if x < 61 then Str ''Loyal''
      else Str ''Champion'')"
  by (simp add: tenure_group_def cut_cell_def tenure_bins_def tenure_labels_def in_bin_def)

lemma monthly_charge_segment_num:
  "monthly_charge_segment (Num x) =
     (if x \<le> 0 then Null
      else if x \<le> 30 then Str ''Low''
      else if x \<le> 70 then Str ''Medium''
      else Str ''High'')"
  by (simp add: monthly_charge_segment_def cut_cell_def charge_bins_def charge_labels_def in_bin_def)

subsection \<open>Helper lemmas\<close>

lemma assign_other_mem:
  "(n, c) \<in> set cs \<Longrightarrow> n \<noteq> name \<Longrightarrow> (n, c) \<in> set (assign cs name vals)"
  by (induction cs) auto

lemma assign_new_mem: "(name, vals) \<in> set (assign cs name vals)"
  by (induction cs) auto

lemma map_of_assign_other:
  "n \<noteq> name \<Longrightarrow> map_of (assign cs name vals) n = map_of cs n"
  by (induction cs) auto

lemma map_of_assign_same: "map_of (assign cs name vals) name = Some vals"
  by (induction cs) auto

lemma assign_lengths:
  "list_all (\<lambda>(n, c). length c = k) cs \<Longrightarrow> length vals = k \<Longrightarrow>
   list_all (\<lambda>(n, c). length c = k) (assign cs name vals)"
  by (induction cs) auto

lemma map_of_length:
  "list_all (\<lambda>(n, c). length c = k) cs \<Longrightarrow> map_of cs n = Some c \<Longrightarrow> length c = k"
  by (induction cs) (auto split: if_splits)

lemma pd_cut_length: "pd_cut right bins labels cs = Inr out \<Longrightarrow> length out = length cs"
  by (auto simp: pd_cut_def split: if_splits)

lemma impute_total_length: "length (impute_total parse tc) = length tc"
  by (simp add: impute_total_def fillna_def Let_def)

lemma transform_data_Inr:
  assumes "transform_data parse df = Inr out"
  shows "\<exists>tc tn mc inet ml ct tg seg.
     map_of (cols df) ''TotalCharges'' = Some tc \<and>
     map_of (cols df) ''tenure'' = Some tn \<and>
     map_of (cols df) ''MonthlyCharges'' = Some mc \<and>
     map_of (cols df) ''InternetService'' = Some inet \<and>
     map_of (cols df) ''MultipleLines'' = Some ml \<and>
     map_of (cols df) ''Contract'' = Some ct \<and>
     pd_cut False tenure_bins tenure_labels tn = Inr tg \<and>
     pd_cut True charge_bins charge_labels mc = Inr seg \<and>
     out = df\<lparr>cols := staged_cols parse (cols df) tc tg seg inet ml ct\<rparr>"
  using assms
  by (auto simp: transform_data_def and_then_def get_col_def set_col_def Let_def
      map_of_assign_other map_of_assign_same drop_columns_def lower_columns_def staged_cols_def
      split: option.splits sum.splits list.splits)

lemma lower_names:
  "lower ''TotalCharges'' = ''totalcharges''"
  "lower ''tenure'' = ''tenure''"
  "lower ''MonthlyCharges'' = ''monthlycharges''"
  by code_simp+

lemma staged_cols_total:
  "(''totalcharges'', impute_total parse tc) \<in> set (staged_cols parse cs tc tg seg inet ml ct)"
proof -
  let ?v = "impute_total parse tc"
  let ?a = "assign (assign (assign (assign (assign (assign cs
            ''TotalCharges'' ?v) ''tenure_group'' tg) ''monthly_charge_segment'' seg)
            ''has_internet_service'' (map (map_dict internet_dict) inet))
            ''is_multi_line_user'' (map (map_dict multiline_dict) ml))
            ''contract_type_code'' (map contract_type_code ct)"
  have "(''TotalCharges'', ?v) \<in> set ?a"
    by (intro assign_other_mem assign_new_mem) simp_all
  then have "(''TotalCharges'', ?v) \<in> set (filter (\<lambda>(n, c). n \<notin> set [''customerID'', ''gender'']) ?a)"
    by simp
  then have "(lower ''TotalCharges'', ?v) \<in> set (staged_cols parse cs tc tg seg inet ml ct)"
    unfolding staged_cols_def by force
  then show ?thesis by (simp only: lower_names)
qed

lemma lower_derived_names:
  "lower ''tenure_group'' = ''tenure_group''"
  "lower ''monthly_charge_segment'' = ''monthly_charge_segment''"
  "lower ''contract_type_code'' = ''contract_type_code''"
  by code_simp+

lemma staged_cols_derived:
  "(''tenure_group'', tg) \<in> set (staged_cols parse cs tc tg seg inet ml ct)"
  "(''monthly_charge_segment'', seg) \<in> set (staged_cols parse cs tc tg seg inet ml ct)"
  "(''contract_type_code'', map contract_type_code ct)
     \<in> set (staged_cols parse cs tc tg seg inet ml ct)"
proof -
  let ?a = "assign (assign (assign (assign (assign (assign cs
            ''TotalCharges'' (impute_total parse tc)) ''tenure_group'' tg)
            ''monthly_charge_segment'' seg)
            ''has_internet_service'' (map (map_dict internet_dict) inet))
            ''is_multi_line_user'' (map (map_dict multiline_dict) ml))
            ''contract_type_code'' (map contract_type_code ct)"
  let ?keep = "filter (\<lambda>(n, c). n \<notin> set [''customerID'', ''gender'']) ?a"
  have "(''tenure_group'', tg) \<in> set ?a"
    by (intro assign_other_mem assign_new_mem) simp_all
  then have "(''tenure_group'', tg) \<in> set ?keep"
    by simp
  then have "(lower ''tenure_group'', tg) \<in> set (staged_cols parse cs tc tg seg inet ml ct)"
    unfolding staged_cols_def by force
  then show "(''tenure_group'', tg) \<in> set (staged_cols parse cs tc tg seg inet ml ct)"
    by (simp only: lower_derived_names)
  have "(''monthly_charge_segment'', seg) \<in> set ?a"
    by (intro assign_other_mem assign_new_mem) simp_all
  then have "(''monthly_charge_segment'', seg) \<in> set ?keep"
    by simp
  then have "(lower ''monthly_charge_segment'', seg)
      \<in> set (staged_cols parse cs tc tg seg inet ml ct)"
    unfolding staged_cols_def by force
  then show "(''monthly_charge_segment'', seg) \<in> set (staged_cols parse cs tc tg seg inet ml ct)"
    by (simp only: lower_derived_names)
  have "(''contract_type_code'', map contract_type_code ct) \<in> set ?a"
    by (rule assign_new_mem)
  then have "(''contract_type_code'', map contract_type_code ct) \<in> set ?keep"
    by simp
  then have "(lower ''contract_type_code'', map contract_type_code ct)
      \<in> set (staged_cols parse cs tc tg seg inet ml ct)"
    unfolding staged_cols_def by force
  then show "(''contract_type_code'', map contract_type_code ct)
      \<in> set (staged_cols parse cs tc tg seg inet ml ct)"
    by (simp only: lower_derived_names)
qed

lemma pd_cut_cells: "pd_cut right bins labels cs = Inr out \<Longrightarrow> out = map (cut_cell right bins labels) cs"
  by (auto simp: pd_cut_def split: if_splits)

lemma staged_cols_kept:
  assumes "(name, v) \<in> set cs"
    and "name \<notin> {''TotalCharges'', ''tenure_group'', ''monthly_charge_segment'',
           ''has_internet_service'', ''is_multi_line_user'', ''contract_type_code'',
           ''customerID'', ''gender''}"
  shows "(lower name, v) \<in> set (staged_cols parse cs tc tg seg inet ml ct)"
proof -
  let ?a = "assign (assign (assign (assign (assign (assign cs
            ''TotalCharges'' (impute_total parse tc)) ''tenure_group'' tg)
            ''monthly_charge_segment'' seg)
            ''has_internet_service'' (map (map_dict internet_dict) inet))
            ''is_multi_line_user'' (map (map_dict multiline_dict) ml))
            ''contract_type_code'' (map contract_type_code ct)"
  have "(name, v) \<in> set ?a"
    using assms by (intro assign_other_mem) auto
  then have "(name, v) \<in> set (filter (\<lambda>(n, c). n \<notin> set [''customerID'', ''gender'']) ?a)"
    using assms(2) by simp
  then show ?thesis
    unfolding staged_cols_def by force
qed

lemma numbers_empty_iff: "numbers cs = [] \<longleftrightarrow> (\<forall>c \<in> set cs. \<forall>x. c \<noteq> Num x)"
  by (induction cs) (auto simp: numbers_def split: cell.splits)

lemma to_numeric_not_str: "to_numeric parse c \<noteq> Str s"
  by (simp add: to_numeric_def split: cell.splits option.splits)

lemma impute_total_map:
  "impute_total parse tc =
     map (\<lambda>c. if to_numeric parse c = Null then mean (map (to_numeric parse) tc)
              else to_numeric parse c) tc"
  by (simp add: impute_total_def fillna_def Let_def)

lemma impute_total_no_null:
  assumes "list_ex (\<lambda>c. to_numeric parse c \<noteq> Null) tc"
  shows "Null \<notin> set (impute_total parse tc)"
proof -
  from assms obtain c where c: "c \<in> set tc" "to_numeric parse c \<noteq> Null"
    by (auto simp: list_ex_iff)
  then obtain x where "to_numeric parse c = Num x"
    by (cases "to_numeric parse c") (auto simp: to_numeric_not_str)
  with c(1) have "numbers (map (to_numeric parse) tc) \<noteq> []"
    by (force simp: numbers_empty_iff)
  then have "mean (map (to_numeric parse) tc) \<noteq> Null"
    by (simp add: mean_def Let_def)
  then show ?thesis
    by (auto simp: impute_total_map)
qed

lemma staged_cols_lengths:
  assumes "list_all (\<lambda>(n, c). length c = k) cs"
    and "length tc = k" "length tg = k" "length seg = k"
    and "length inet = k" "length ml = k" "length ct = k"
  shows "list_all (\<lambda>(n, c). length c = k) (staged_cols parse cs tc tg seg inet ml ct)"
proof -
  let ?a = "assign (assign (assign (assign (assign (assign cs
            ''TotalCharges'' (impute_total parse tc)) ''tenure_group'' tg)
            ''monthly_charge_segment'' seg)
            ''has_internet_service'' (map (map_dict internet_dict) inet))
            ''is_multi_line_user'' (map (map_dict multiline_dict) ml))
            ''contract_type_code'' (map contract_type_code ct)"
  have "list_all (\<lambda>(n, c). length c = k) ?a"
    using assms by (intro assign_lengths) (simp_all add: impute_total_length)
  then show ?thesis
    unfolding staged_cols_def by (auto simp: list_all_iff)
qed

subsection \<open>Claims about the transform stage\<close>

text \<open>
  C3, as amended. The stage imputes TotalCharges only. After \<open>transform_data\<close>
  completes, the staged total-charge column has no missing value provided at least one
  raw TotalCharges value parses as a number; the tenure and monthly-charge columns are
  the raw columns, unchanged, so they are missing exactly where the raw file is.
\<close>

theorem staged_core_columns:
  assumes "transform_data parse df = Inr out"
    and "get_col df ''TotalCharges'' = Inr tc"
    and "get_col df ''tenure'' = Inr tn"
    and "get_col df ''MonthlyCharges'' = Inr mc"
    and "list_ex (\<lambda>c. to_numeric parse c \<noteq> Null) tc"
  shows "(''totalcharges'', impute_total parse tc) \<in> set (cols out) \<and>
         Null \<notin> set (impute_total parse tc) \<and>
         (''tenure'', tn) \<in> set (cols out) \<and>
         (''monthlycharges'', mc) \<in> set (cols out)"
proof -
  from transform_data_Inr [OF assms(1)] assms(2-4)
  obtain tg seg inet ml ct where
    out: "out = df\<lparr>cols := staged_cols parse (cols df) tc tg seg inet ml ct\<rparr>"
    and tn: "map_of (cols df) ''tenure'' = Some tn"
    and mc: "map_of (cols df) ''MonthlyCharges'' = Some mc"
    by (auto simp: get_col_def split: option.splits)
  have "(lower ''tenure'', tn) \<in> set (cols out)"
    unfolding out using map_of_SomeD [OF tn] by (simp add: staged_cols_kept)
  moreover have "(lower ''MonthlyCharges'', mc) \<in> set (cols out)"
    unfolding out using map_of_SomeD [OF mc] by (simp add: staged_cols_kept)
  moreover have "(''totalcharges'', impute_total parse tc) \<in> set (cols out)"
    unfolding out by (simp add: staged_cols_total)
  ultimately show ?thesis
    using impute_total_no_null [OF assms(5)] by (simp add: lower_names)
qed

theorem staged_core_columns_witness:
  "transform_data parse_digits raw_example = Inr staged_example \<and>
   get_col raw_example ''TotalCharges'' = Inr [Str [], Str ''50'', Str ''70''] \<and>
   (''totalcharges'', [Num 60, Num 50, Num 70]) \<in> set (cols staged_example) \<and>
   Null \<notin> set [Num 60, Num 50, Num (70::rat)] \<and>
   (''tenure'', [Num 0, Num 13, Num 61]) \<in> set (cols staged_example) \<and>
   (''monthlycharges'', [Num 30, Num 70, Num (7001 / 100)]) \<in> set (cols staged_example)"
proof -
  have h1: "transform_data parse_digits raw_example = Inr staged_example"
    by code_simp
  have h2: "get_col raw_example ''TotalCharges'' = Inr [Str [], Str ''50'', Str ''70'']"
    by code_simp
  have h3: "get_col raw_example ''tenure'' = Inr [Num 0, Num 13, Num 61]"
    by code_simp
  have h4: "get_col raw_example ''MonthlyCharges'' = Inr [Num 30, Num 70, Num (7001 / 100)]"
    by code_simp
  have h5: "list_ex (\<lambda>c. to_numeric parse_digits c \<noteq> Null) [Str [], Str ''50'', Str ''70'']"
    by code_simp
  have v: "impute_total parse_digits [Str [], Str ''50'', Str ''70''] = [Num 60, Num 50, Num 70]"
    by code_simp
  show ?thesis
    using staged_core_columns [OF h1 h2 h3 h4 h5] h1 h2 by (simp add: v)
qed

text \<open>
  C3 as stated fails: a raw file with a missing tenure is transformed without error
  and the staged tenure column still has the missing value.
\<close>

theorem staged_tenure_missing_counterexample:
  "transform_data parse_digits raw_gaps = Inr staged_gaps \<and>
   get_col staged_gaps ''tenure'' = Inr [Null, Num (- 1)]"
  by code_simp



text \<open>
  C5. The staged column \<open>tenure_group\<close> buckets tenure at 0, 13, 37, 61 with the
  lower edge inclusive and the upper edge exclusive, unbounded above; the staged column
  \<open>monthly_charge_segment\<close> buckets the monthly charge at 0, 30, 70 with the lower
  edge exclusive and the upper edge inclusive, unbounded above. A value below the first
  bucket (and a monthly charge of exactly 0) gets no bucket.
\<close>

theorem bucket_edges:
  assumes "transform_data parse df = Inr out"
    and "get_col df ''tenure'' = Inr tn"
    and "get_col df ''MonthlyCharges'' = Inr mc"
  shows "(''tenure_group'', map tenure_group tn) \<in> set (cols out) \<and>
   (''monthly_charge_segment'', map monthly_charge_segment mc) \<in> set (cols out) \<and>
   tenure_group (Num x) =
     (if x < 0 then Null
      else if x < 13 then Str ''New''
      else if x < 37 then Str ''Regular''
      else if x < 61 then Str ''Loyal''
      else Str ''Champion'') \<and>
   monthly_charge_segment (Num y) =
     (if y \<le> 0 then Null
      else if y \<le> 30 then Str ''Low''
      else if y \<le> 70 then Str ''Medium''
      else Str ''High'') \<and>
   tenure_group (Num 13) = Str ''Regular'' \<and>
   tenure_group (Num (12999 / 1000)) = Str ''New'' \<and>
   tenure_group (Num 61) = Str ''Champion'' \<and>
   tenure_group (Num 0) = Str ''New'' \<and>
   monthly_charge_segment (Num 30) = Str ''Low'' \<and>
   monthly_charge_segment (Num (3001 / 100)) = Str ''Medium'' \<and>
   monthly_charge_segment (Num 70) = Str ''Medium'' \<and>
   monthly_charge_segment (Num (7001 / 100)) = Str ''High''"
proof -
  from transform_data_Inr [OF assms(1)] assms(2,3)
  obtain tc tg seg inet ml ct where
    tg: "pd_cut False tenure_bins tenure_labels tn = Inr tg"
    and seg: "pd_cut True charge_bins charge_labels mc = Inr seg"
    and out: "out = df\<lparr>cols := staged_cols parse (cols df) tc tg seg inet ml ct\<rparr>"
    by (auto simp: get_col_def split: option.splits)
  have "tg = map tenure_group tn" "seg = map monthly_charge_segment mc"
    using pd_cut_cells [OF tg] pd_cut_cells [OF seg]
    by (simp_all add: tenure_group_def monthly_charge_segment_def)
  then have "(''tenure_group'', map tenure_group tn) \<in> set (cols out)"
    "(''monthly_charge_segment'', map monthly_charge_segment mc) \<in> set (cols out)"
    unfolding out by (simp_all add: staged_cols_derived)
  then show ?thesis
    by (simp add: tenure_group_num monthly_charge_segment_num)
qed

theorem bucket_edges_witness:
  "transform_data parse_digits raw_example = Inr staged_example \<and>
   get_col raw_example ''tenure'' = Inr [Num 0, Num 13, Num 61] \<and>
   get_col raw_example ''MonthlyCharges'' = Inr [Num 30, Num 70, Num (7001 / 100)] \<and>
   (''tenure_group'', [Str ''New'', Str ''Regular'', Str ''Champion'']) \<in> set (cols staged_example) \<and>
   (''monthly_charge_segment'', [Str ''Low'', Str ''Medium'', Str ''High''])
     \<in> set (cols staged_example)"
proof -
  have h1: "transform_data parse_digits raw_example = Inr staged_example"
    by code_simp
  have h2: "get_col raw_example ''tenure'' = Inr [Num 0, Num 13, Num 61]"
    by code_simp
  have h3: "get_col raw_example ''MonthlyCharges'' = Inr [Num 30, Num 70, Num (7001 / 100)]"
    by code_simp
  have v: "map tenure_group [Num 0, Num 13, Num 61] = [Str ''New'', Str ''Regular'', Str ''Champion'']"
    "map monthly_charge_segment [Num 30, Num 70, Num (7001 / 100)] =
       [Str ''Low'', Str ''Medium'', Str ''High'']"
    by (simp_all add: tenure_group_num monthly_charge_segment_num)
  note t = bucket_edges [OF h1 h2 h3]
  from t have a: "(''tenure_group'', map tenure_group [Num 0, Num 13, Num 61])
      \<in> set (cols staged_example)"
    by (rule conjunct1)
  from t have b: "(''monthly_charge_segment'',
      map monthly_charge_segment [Num 30, Num 70, Num (7001 / 100)]) \<in> set (cols staged_example)"
    by (rule conjunct1 [OF conjunct2])
  from a b h1 h2 h3 show ?thesis
    by (simp only: v simp_thms)
qed

text \<open>
  C6. The staged column \<open>contract_type_code\<close> maps Month-to-month to 0, One year to
  1, Two year to 2, and every other cell, a missing one included, to a missing code.
\<close>

theorem contract_code_mapping:
  assumes "transform_data parse df = Inr out"
    and "get_col df ''Contract'' = Inr ct"
  shows "(''contract_type_code'', map contract_type_code ct) \<in> set (cols out) \<and>
   contract_type_code c =
     (if c = Str ''Month-to-month'' then Num 0
      else if c = Str ''One year'' then Num 1
      else if c = Str ''Two year'' then Num 2
      else Null)"
proof -
  from transform_data_Inr [OF assms(1)] assms(2)
  obtain tc tg seg inet ml where
    out: "out = df\<lparr>cols := staged_cols parse (cols df) tc tg seg inet ml ct\<rparr>"
    by (auto simp: get_col_def split: option.splits)
  have "(''contract_type_code'', map contract_type_code ct) \<in> set (cols out)"
    unfolding out by (simp add: staged_cols_derived(3))
  moreover have "contract_type_code c =
     (if c = Str ''Month-to-month'' then Num 0
      else if c = Str ''One year'' then Num 1
      else if c = Str ''Two year'' then Num 2
      else Null)"
    by (cases c) (simp_all add: contract_type_code_def map_dict_def contract_dict_def)
  ultimately show ?thesis
    by simp
qed

theorem contract_code_mapping_witness:
  "transform_data parse_digits raw_example = Inr staged_example \<and>
   get_col raw_example ''Contract'' = Inr [Str ''Month-to-month'', Str ''Two year'', Str ''Bogus''] \<and>
   (''contract_type_code'', [Num 0, Num 2, Null]) \<in> set (cols staged_example)"
proof -
  have h1: "transform_data parse_digits raw_example = Inr staged_example"
    by code_simp
  have h2: "get_col raw_example ''Contract'' =
      Inr [Str ''Month-to-month'', Str ''Two year'', Str ''Bogus'']"
    by code_simp
  have v: "map contract_type_code [Str ''Month-to-month'', Str ''Two year'', Str ''Bogus''] =
      [Num 0, Num 2, Null]"
    by (simp add: contract_type_code_def map_dict_def contract_dict_def)
  from contract_code_mapping [OF h1 h2]
  have "(''contract_type_code'',
      map contract_type_code [Str ''Month-to-month'', Str ''Two year'', Str ''Bogus''])
      \<in> set (cols staged_example)"
    by (rule conjunct1)
  with h1 h2 show ?thesis
    by (simp only: v simp_thms)
qed

text \<open>
  C10. The staged dataframe has exactly the rows of the raw dataframe: the index has
  the same length and every staged column, the derived ones included, has one cell per
  raw row, also where a value falls outside every bucket.
\<close>

theorem transform_preserves_rows:
  assumes "wf_df df"
    and "transform_data parse df = Inr out"
  shows "n_rows out = n_rows df \<and> wf_df out"
proof -
  from transform_data_Inr [OF assms(2)]
  obtain tc tn mc inet ml ct tg seg where
    c: "map_of (cols df) ''TotalCharges'' = Some tc"
       "map_of (cols df) ''tenure'' = Some tn"
       "map_of (cols df) ''MonthlyCharges'' = Some mc"
       "map_of (cols df) ''InternetService'' = Some inet"
       "map_of (cols df) ''MultipleLines'' = Some ml"
       "map_of (cols df) ''Contract'' = Some ct"
    and tg: "pd_cut False tenure_bins tenure_labels tn = Inr tg"
    and seg: "pd_cut True charge_bins charge_labels mc = Inr seg"
    and out: "out = df\<lparr>cols := staged_cols parse (cols df) tc tg seg inet ml ct\<rparr>"
    by blast
  let ?k = "n_rows df"
  from assms(1) have wf: "list_all (\<lambda>(n, c). length c = ?k) (cols df)"
    by (simp add: wf_df_def)
  have len: "length tc = ?k" "length tn = ?k" "length mc = ?k"
    "length inet = ?k" "length ml = ?k" "length ct = ?k"
    using c by (auto intro: map_of_length [OF wf])
  have "length tg = ?k" "length seg = ?k"
    using pd_cut_length [OF tg] pd_cut_length [OF seg] len by simp_all
  with len wf have "list_all (\<lambda>(n, c). length c = ?k) (staged_cols parse (cols df) tc tg seg inet ml ct)"
    by (intro staged_cols_lengths) simp_all
  then show ?thesis
    by (simp add: out wf_df_def)
qed

theorem transform_preserves_rows_witness:
  "wf_df raw_gaps \<and> transform_data parse_digits raw_gaps = Inr staged_gaps \<and>
   n_rows staged_gaps = n_rows raw_gaps \<and> wf_df staged_gaps \<and>
   get_col staged_gaps ''tenure_group'' = Inr [Null, Null]"
proof -
  have h1: "wf_df raw_gaps"
    by code_simp
  have h2: "transform_data parse_digits raw_gaps = Inr staged_gaps"
    by code_simp
  have h3: "get_col staged_gaps ''tenure_group'' = Inr [Null, Null]"
    by code_simp
  show ?thesis
    using transform_preserves_rows [OF h1 h2] h1 h2 h3 by simp
qed

section \<open>Properties of the response extractor\<close>

lemma first_list_of_dicts_Some:
  "first_list_of_dicts items = Some xs \<Longrightarrow> PList xs \<in> set items \<and> list_all is_dict xs"
  by (induction items) (auto split: pyval.splits if_splits)

lemma first_list_of_dicts_None:
  "first_list_of_dicts items = None \<longleftrightarrow> \<not> list_ex is_list_of_dicts items"
  by (induction items) (auto simp: is_list_of_dicts_def split: pyval.splits)

lemma getattr_dict: "dict_data res = Some xs \<Longrightarrow> getattr res name = PNone"
  by (cases res) (auto simp: getattr_def dict_data_def)

lemma getattr_seq: "seq_items res = Some items \<Longrightarrow> getattr res name = PNone"
  by (cases res) (auto simp: getattr_def seq_items_def)

lemma dict_data_not_seq: "seq_items res = Some items \<Longrightarrow> dict_data res = None"
  by (cases res) (auto simp: dict_data_def seq_items_def)

lemma not_list_cases:
  "\<not> is_list v \<Longrightarrow> (case v of PList data \<Rightarrow> f data | _ \<Rightarrow> d) = d"
  by (cases v) (auto simp: is_list_def)

text \<open>
  What the extractor returns, branch by branch. It is a total function. It returns the
  data list of an object with a data-list attribute, the data list of a dict, the first
  inner list of dicts of a list or tuple, the elements of a list or tuple whose first
  element is a dict, the data list of the dict that \<open>json()\<close> yields; for every
  other value it returns the empty list.
\<close>

lemma extract_shapes:
  "(getattr res ''data'' = PList xs \<longrightarrow> extract_data_from_response res = xs) \<and>
   (dict_data res = Some xs \<longrightarrow> extract_data_from_response res = xs) \<and>
   (seq_items res = Some items \<and> first_list_of_dicts items = Some xs \<longrightarrow>
      extract_data_from_response res = xs \<and> PList xs \<in> set items \<and> list_all is_dict xs) \<and>
   (seq_items res = Some (x # rest) \<and> \<not> list_ex is_list_of_dicts (x # rest) \<and> is_dict x \<longrightarrow>
      extract_data_from_response res = x # rest) \<and>
   (\<not> is_list (getattr res ''data'') \<and> getattr res ''json'' = PCallable (Some j) \<and>
    dict_data j = Some xs \<and> dict_data res = None \<and> seq_items res = None \<longrightarrow>
      extract_data_from_response res = xs) \<and>
   (\<not> is_list (getattr res ''data'') \<and> dict_data res = None \<and>
    (case seq_items res of
       Some items \<Rightarrow> \<not> list_ex is_list_of_dicts items \<and> \<not> (items \<noteq> [] \<and> is_dict (hd items))
     | None \<Rightarrow> True) \<and>
    \<not> json_yields_data res \<longrightarrow>
      extract_data_from_response res = [])"
proof (intro conjI impI)
  assume "getattr res ''data'' = PList xs"
  then show "extract_data_from_response res = xs"
    by (simp add: extract_data_from_response_def)
next
  assume a: "dict_data res = Some xs"
  then have "getattr res ''data'' = PNone"
    by (rule getattr_dict)
  with a show "extract_data_from_response res = xs"
    by (simp add: extract_data_from_response_def)
next
  assume a: "seq_items res = Some items \<and> first_list_of_dicts items = Some xs"
  then have "getattr res ''data'' = PNone" "dict_data res = None"
    by (simp_all add: getattr_seq dict_data_not_seq)
  with a show "extract_data_from_response res = xs"
    by (simp add: extract_data_from_response_def)
  from a have "first_list_of_dicts items = Some xs"
    by simp
  from first_list_of_dicts_Some [OF this]
  show "PList xs \<in> set items" "list_all is_dict xs"
    by simp_all
next
  assume a: "seq_items res = Some (x # rest) \<and> \<not> list_ex is_list_of_dicts (x # rest) \<and> is_dict x"
  then have "getattr res ''data'' = PNone" "dict_data res = None"
    "first_list_of_dicts (x # rest) = None"
    by (simp_all only: getattr_seq dict_data_not_seq first_list_of_dicts_None not_False_eq_True)
  with a show "extract_data_from_response res = x # rest"
    by (simp add: extract_data_from_response_def)
next
  assume a: "\<not> is_list (getattr res ''data'') \<and> getattr res ''json'' = PCallable (Some j) \<and>
    dict_data j = Some xs \<and> dict_data res = None \<and> seq_items res = None"
  then show "extract_data_from_response res = xs"
    by (simp add: extract_data_from_response_def not_list_cases json_data_def)
next
  assume a: "\<not> is_list (getattr res ''data'') \<and> dict_data res = None \<and>
    (case seq_items res of
       Some items \<Rightarrow> \<not> list_ex is_list_of_dicts items \<and> \<not> (items \<noteq> [] \<and> is_dict (hd items))
     | None \<Rightarrow> True) \<and>
    \<not> json_yields_data res"
  then have j: "json_data res = []"
    by (auto simp: json_data_def json_yields_data_def split: pyval.splits option.splits)
  show "extract_data_from_response res = []"
  proof (cases "seq_items res")
    case None
    with a j show ?thesis
      by (simp add: extract_data_from_response_def not_list_cases)
  next
    case (Some items)
    with a have "first_list_of_dicts items = None"
      by (simp add: first_list_of_dicts_None)
    with a j Some show ?thesis
      by (cases items) (simp_all add: extract_data_from_response_def not_list_cases)
  qed
qed

lemma extract_shapes_examples:
  "extract_data_from_response (PObj [(''data'', PList [PDict [(''id'', PInt 1)]])]) =
     [PDict [(''id'', PInt 1)]] \<and>
   extract_data_from_response (PDict [(''data'', PList [PDict [(''id'', PInt 2)]])]) =
     [PDict [(''id'', PInt 2)]] \<and>
   extract_data_from_response (PTuple [PInt 7, PList [PDict [(''id'', PInt 3)]]]) =
     [PDict [(''id'', PInt 3)]] \<and>
   extract_data_from_response (PList [PDict [(''id'', PInt 4)], PInt 5]) =
     [PDict [(''id'', PInt 4)], PInt 5] \<and>
   extract_data_from_response
     (PObj [(''json'', PCallable (Some (PDict [(''data'', PList [PDict [(''id'', PInt 6)]])])))]) =
     [PDict [(''id'', PInt 6)]] \<and>
   extract_data_from_response (PObj [(''json'', PCallable None)]) = [] \<and>
   extract_data_from_response (PList [PInt 1, PInt 2]) = [] \<and>
   extract_data_from_response PNone = []"
proof -
  let ?d = "\<lambda>i. PDict [(''id'', PInt i)]"
  have "extract_data_from_response (PObj [(''data'', PList [?d 1])]) = [?d 1]"
    using extract_shapes [of "PObj [(''data'', PList [?d 1])]" "[?d 1]"]
    by (simp add: getattr_def)
  moreover have "extract_data_from_response (PDict [(''data'', PList [?d 2])]) = [?d 2]"
    using extract_shapes [of "PDict [(''data'', PList [?d 2])]" "[?d 2]"]
    by (simp add: dict_data_def)
  moreover have "extract_data_from_response (PTuple [PInt 7, PList [?d 3]]) = [?d 3]"
    using extract_shapes [of "PTuple [PInt 7, PList [?d 3]]" "[?d 3]" "[PInt 7, PList [?d 3]]"]
    by (simp add: seq_items_def is_dict_def)
  moreover have "extract_data_from_response (PList [?d 4, PInt 5]) = [?d 4, PInt 5]"
    using extract_shapes [of "PList [?d 4, PInt 5]" _ _ "?d 4" "[PInt 5]"]
    by (simp add: seq_items_def is_dict_def is_list_of_dicts_def)
  moreover have "extract_data_from_response
     (PObj [(''json'', PCallable (Some (PDict [(''data'', PList [?d 6])])))]) = [?d 6]"
    using extract_shapes [of "PObj [(''json'', PCallable (Some (PDict [(''data'', PList [?d 6])])))]"
        "[?d 6]" _ _ _ "PDict [(''data'', PList [?d 6])]"]
    by (simp add: getattr_def dict_data_def seq_items_def is_list_def)
  moreover have "extract_data_from_response (PObj [(''json'', PCallable None)]) = []"
    using extract_shapes [of "PObj [(''json'', PCallable None)]"]
    by (simp add: getattr_def dict_data_def seq_items_def is_list_def json_yields_data_def)
  moreover have "extract_data_from_response (PList [PInt 1, PInt 2]) = []"
    using extract_shapes [of "PList [PInt 1, PInt 2]"]
    by (simp add: getattr_def dict_data_def seq_items_def is_list_def json_yields_data_def
        is_list_of_dicts_def is_dict_def)
  moreover have "extract_data_from_response PNone = []"
    using extract_shapes [of PNone]
    by (simp add: getattr_def dict_data_def seq_items_def is_list_def json_yields_data_def)
  ultimately show ?thesis
    by blast
qed

text \<open>
  C9: the code under test at the response \<open>[{'id': 1}, 5]\<close>. The list starts with a
  dict and also holds a non-dict, so it is none of the shapes the specification lists
  and the extractor should return the empty list. The branch for a list of dicts tests
  the first element only: the list is returned whole, and the result is not a list of
  dicts.
\<close>

theorem extract_mixed_list_not_dicts:
  "\<not> spec_recognized (PList [PDict [(''id'', PInt 1)], PInt 5]) \<and>
   extract_data_from_response (PList [PDict [(''id'', PInt 1)], PInt 5]) =
     [PDict [(''id'', PInt 1)], PInt 5] \<and>
   \<not> list_all is_dict (extract_data_from_response (PList [PDict [(''id'', PInt 1)], PInt 5]))"
  by (simp add: spec_recognized_def extract_data_from_response_def getattr_def dict_data_def
      seq_items_def is_list_def is_list_of_dicts_def is_dict_def json_yields_data_def)

theorem extract_mixed_list_not_dicts_witness:
  "extract_data_from_response (PList [PDict [(''id'', PInt 1)], PInt 5]) \<noteq> []"
  using extract_mixed_list_not_dicts by simp

section \<open>Properties of the validation stage\<close>

lemma validate_absent: "validate str_int Absent st = Inr None"
  by (simp add: validate_def)

lemma validate_unreachable:
  "validate str_int (Present df) Unreachable =
     and_then (contract_check str_int df) (\<lambda>c.
       Inr (Some \<lparr>staged_rows = n_rows df, unique_rows = unique_rows_of df,
                  missing_values = missing_checks df, supabase_rows = None,
                  segments = seg_checks df, contract_report = c\<rparr>))"
  by (simp add: validate_def store_rows_def and_then_def)

lemma validate_no_credentials: "validate str_int (Present df) NoCredentials = Inl SystemExit"
  by (simp add: validate_def store_rows_def and_then_def)

lemma invalid_codes_numeric:
  "list_all is_num cs \<Longrightarrow>
   \<exists>i. invalid_codes str_int cs = Inr i \<and>
       set i = {c \<in> set cs. \<exists>x. c = Num x \<and> trunc x \<notin> {0, 1, 2}}"
  by (induction cs) (auto simp: is_num_def py_int_def and_then_def split: cell.splits)

lemma set_unique: "set (unique xs) = set xs"
  by (simp add: unique_def)

lemma insert_sorted_set: "set (insert_sorted c cs) = insert c (set cs)"
  by (induction cs) auto

lemma foldr_insert_sorted_set: "set (foldr insert_sorted cs []) = set cs"
  by (induction cs) (auto simp: insert_sorted_set)

text \<open>
  On a code column without strings check 6 does not raise, and it lists exactly the
  distinct non-null codes whose truncation is outside 0, 1, 2.
\<close>

lemma contract_check_numeric:
  assumes "map_of (cols df) ''contract_type_code'' = Some codes"
    and "\<not> list_ex is_str codes"
  shows "\<exists>u i. contract_check str_int df = Inr (ContractCodes u i) \<and>
           set u = set (dropna codes) \<and>
           set i = {c \<in> set codes. \<exists>x. c = Num x \<and> trunc x \<notin> {0, 1, 2}}"
proof -
  let ?u = "unique (dropna codes)"
  have num: "list_all is_num ?u"
    using assms(2)
    by (auto simp: unique_def dropna_def list_all_iff list_ex_iff is_num_def is_str_def
        split: cell.splits)
  then have s: "py_sorted ?u = Inr (foldr insert_sorted ?u [])"
    by (simp add: py_sorted_def)
  let ?s = "foldr insert_sorted ?u []"
  have su: "set ?s = set (dropna codes)"
    by (simp add: foldr_insert_sorted_set set_unique)
  from num have "list_all is_num ?s"
    by (simp add: list_all_iff foldr_insert_sorted_set)
  from invalid_codes_numeric [OF this, of str_int] obtain i where
    inv: "invalid_codes str_int ?s = Inr i"
    and i: "set i = {c \<in> set ?s. \<exists>x. c = Num x \<and> trunc x \<notin> {0, 1, 2}}"
    by blast
  have "contract_check str_int df = Inr (ContractCodes ?s i)"
    using assms(1) s inv by (simp add: contract_check_def and_then_def)
  moreover have "set i = {c \<in> set codes. \<exists>x. c = Num x \<and> trunc x \<notin> {0, 1, 2}}"
    unfolding i su by (auto simp: dropna_def)
  ultimately show ?thesis
    using su by blast
qed

text \<open>
  With credentials configured and a code column without strings (or no code column),
  \<open>validate\<close> reaches its summary: checks 2, 3 and 5 report for any staged content,
  and an unreachable store only leaves the store row count out.
\<close>

lemma validate_completes:
  assumes "st \<noteq> NoCredentials"
    and "case map_of (cols df) ''contract_type_code'' of
           Some codes \<Rightarrow> \<not> list_ex is_str codes | None \<Rightarrow> True"
  shows "\<exists>r. validate str_int (Present df) st = Inr (Some r) \<and>
           staged_rows r = n_rows df \<and> unique_rows r = unique_rows_of df \<and>
           missing_values r = missing_checks df \<and> segments r = seg_checks df \<and>
           (st = Unreachable \<longrightarrow> supabase_rows r = None)"
proof -
  from assms(1) obtain n where n: "store_rows st = Inr n" "st = Unreachable \<longrightarrow> n = None"
    by (cases st) (simp_all add: store_rows_def)
  have "\<exists>c. contract_check str_int df = Inr c"
  proof (cases "map_of (cols df) ''contract_type_code''")
    case None
    then show ?thesis
      by (simp add: contract_check_def)
  next
    case (Some codes)
    with assms(2) have "\<not> list_ex is_str codes"
      by simp
    from contract_check_numeric [OF Some this, of str_int] show ?thesis
      by blast
  qed
  then obtain c where "contract_check str_int df = Inr c" ..
  with n show ?thesis
    by (simp add: validate_def and_then_def)
qed

lemma validate_reports_invalid_code:
  "validate int_digits (Present staged_bad_code) Unreachable =
     Inr (Some \<lparr>staged_rows = 4, unique_rows = 4,
                missing_values =
                  [(''tenure'', Some 0), (''MonthlyCharges'', None), (''TotalCharges'', None)],
                supabase_rows = None,
                segments = [(''tenure_group'', None), (''monthly_charge_segment'', None)],
                contract_report = ContractCodes [Num 0, Num 7] [Num 7]\<rparr>)"
  by code_simp

text \<open>
  C2: the code under test at a staged file whose contract code column holds 1.5. The
  code is non-null and is not one of 0, 1, 2, yet \<open>int(1.5) = 1\<close> passes the domain
  test and the list of invalid codes is empty.
\<close>

theorem contract_check_fraction:
  "contract_check str_int staged_fraction_code = Inr (ContractCodes [Num (3 / 2), Num 2] [])"
proof -
  have t: "trunc (3 / 2) = 1" "trunc 2 = 2"
    by code_simp+
  show ?thesis
    by (simp add: contract_check_def staged_fraction_code_def dropna_def unique_def
        py_sorted_def is_num_def and_then_def py_int_def t)
qed

text \<open>
  C7: the code under test at a staged file whose contract code column holds the text
  \<open>abc\<close>. Python's \<open>int\<close> refuses the string, and the ValueError of check 6 leaves
  \<open>validate\<close>: no report is produced.
\<close>

theorem validate_text_code_raises:
  assumes "str_int ''abc'' = None"
  shows "validate str_int (Present staged_text_code) Unreachable = Inl ValueError"
  using assms
  by (simp add: validate_def store_rows_def contract_check_def staged_text_code_def dropna_def
      unique_def py_sorted_def is_num_def is_str_def and_then_def py_int_def)

theorem validate_text_code_raises_witness:
  "int_digits ''abc'' = None \<and>
   validate int_digits (Present staged_text_code) Unreachable = Inl ValueError"
proof -
  have h: "int_digits ''abc'' = None"
    by code_simp
  from validate_text_code_raises [of int_digits, OF h] h show ?thesis
    by simp
qed

section \<open>Properties of the analysis stage\<close>

lemma written_mem: "a \<in> set (written mk table) \<Longrightarrow> \<exists>rows. table = Some rows \<and> a = mk rows"
  by (auto simp: written_def split: option.splits if_splits)

lemma pivot_in_details:
  "ChurnVsTenurePivot rows \<in> set (detail_artifacts avg tenure internet pivot) \<Longrightarrow>
   pivot = Some rows"
  by (auto simp: detail_artifacts_def dest!: written_mem)

lemma filter_flags_length:
  "length (filter Not flags) + length (filter id flags) = length flags"
  by (induction flags) auto

lemma pivot_row_sum:
  assumes "g \<in> fst ` set pairs"
    and "pivot_row pairs g = (g', no, yes)"
  shows "no + yes = 100"
proof -
  let ?flags = "group_cells pairs g"
  from assms(1) have "?flags \<noteq> []"
    by (force simp: group_cells_def filter_empty_conv)
  then have pos: "(of_nat (length ?flags) :: rat) \<noteq> 0"
    by simp
  from assms(2) have "no + yes =
      (of_nat (length (filter Not ?flags)) + of_nat (length (filter id ?flags))) /
        of_nat (length ?flags) * 100"
    by (auto simp: pivot_row_def Let_def add_divide_distrib distrib_right)
  also have "\<dots> = of_nat (length ?flags) / of_nat (length ?flags) * 100"
    by (simp only: of_nat_add [symmetric] filter_flags_length)
  also have "\<dots> = 100"
    using pos by simp
  finally show ?thesis .
qed

lemma churn_vs_tenure_rows:
  assumes "churn_vs_tenure num_str df = Inr (Some rows)"
    and "(g, no, yes) \<in> set rows"
  shows "no + yes = 100"
proof -
  from assms(1) obtain pairs :: "(cell \<times> bool) list" where
    rows: "rows = map (pivot_row pairs) (unique (map fst pairs))"
    by (auto simp: churn_vs_tenure_def Let_def split: option.splits if_splits)
  with assms(2) have "(g, no, yes) \<in> pivot_row pairs ` fst ` set pairs"
    by (simp add: set_unique)
  then obtain k where k: "k \<in> fst ` set pairs" "(g, no, yes) = pivot_row pairs k"
    by blast
  from k(1) k(2) [symmetric] show ?thesis
    by (rule pivot_row_sum)
qed

text \<open>
  C1, as amended. On an empty dataframe (no rows, or no columns) \<open>analyze_and_save\<close>
  returns at once: it writes no artifact, the summary included, and raises nothing. On
  a dataframe that is not empty and on which the metrics are computed without an
  exception, the summary is the first artifact written; it holds the churn percentage
  (nothing when no churn column is found) and the number of rows, and it is the only
  artifact when the other metrics are skipped.
\<close>

theorem summary_artifact:
  "(df_empty df \<longrightarrow> analyze_and_save num_str df = Inr []) \<and>
   (\<not> df_empty df \<and> avg_monthly_by_contract df = Inr avg \<and>
    churn_vs_tenure num_str df = Inr pivot \<longrightarrow>
      analyze_and_save num_str df =
        Inr (AnalysisSummary (churn_percentage num_str df) (n_rows df) #
             detail_artifacts avg (tenure_counts df) (internet_dist df) pivot)) \<and>
   (\<not> df_empty df \<and> resolve df monthly_names = None \<and>
    resolve df tenure_group_names = None \<and> resolve df internet_names = None \<longrightarrow>
      analyze_and_save num_str df =
        Inr [AnalysisSummary (churn_percentage num_str df) (n_rows df)]) \<and>
   (resolve df churn_names = None \<longrightarrow> churn_percentage num_str df = None)"
  by (simp add: analyze_and_save_def and_then_def avg_monthly_by_contract_def
      churn_vs_tenure_def tenure_counts_def internet_dist_def detail_artifacts_def written_def
      churn_percentage_def split: option.splits)

theorem summary_artifact_witness:
  "df_empty empty_frame \<and> analyze_and_save num_str_plain empty_frame = Inr [] \<and>
   \<not> df_empty store_frame \<and>
   analyze_and_save num_str_plain store_frame =
     Inr [AnalysisSummary (Some 50) 4,
          AvgMonthlyByContract
            [(Str ''One year'', Num 30), (Str ''Two year'', Num 70), (Null, Num 20)],
          TenureGroupCounts [(Str ''New'', 3), (Str ''MISSING'', 1)],
          InternetServiceDistribution [(Str ''DSL'', 2), (Str ''No'', 1), (Str ''MISSING'', 1)],
          ChurnVsTenurePivot [(Str ''New'', 200 / 3, 100 / 3), (Str ''MISSING'', 0, 100)]] \<and>
   \<not> df_empty id_only_frame \<and>
   analyze_and_save num_str_plain id_only_frame = Inr [AnalysisSummary None 2]"
proof -
  have e: "df_empty empty_frame"
    by code_simp
  have a: "analyze_and_save num_str_plain empty_frame = Inr []"
    using summary_artifact [of empty_frame num_str_plain] e by simp
  have s: "\<not> df_empty store_frame"
    by code_simp
  have s1: "avg_monthly_by_contract store_frame =
      Inr (Some [(Str ''One year'', Num 30), (Str ''Two year'', Num 70), (Null, Num 20)])"
    by code_simp
  have s2: "churn_vs_tenure num_str_plain store_frame =
      Inr (Some [(Str ''New'', 200 / 3, 100 / 3), (Str ''MISSING'', 0, 100)])"
    by code_simp
  have s3: "churn_percentage num_str_plain store_frame = Some 50"
    "n_rows store_frame = 4"
    "tenure_counts store_frame = Some [(Str ''New'', 3), (Str ''MISSING'', 1)]"
    "internet_dist store_frame = Some [(Str ''DSL'', 2), (Str ''No'', 1), (Str ''MISSING'', 1)]"
    by code_simp+
  have b: "analyze_and_save num_str_plain store_frame =
     Inr [AnalysisSummary (Some 50) 4,
          AvgMonthlyByContract
            [(Str ''One year'', Num 30), (Str ''Two year'', Num 70), (Null, Num 20)],
          TenureGroupCounts [(Str ''New'', 3), (Str ''MISSING'', 1)],
          InternetServiceDistribution [(Str ''DSL'', 2), (Str ''No'', 1), (Str ''MISSING'', 1)],
          ChurnVsTenurePivot [(Str ''New'', 200 / 3, 100 / 3), (Str ''MISSING'', 0, 100)]]"
    using summary_artifact [of store_frame num_str_plain _ _] s s1 s2
    by (simp add: s3 detail_artifacts_def written_def)
  have i: "\<not> df_empty id_only_frame"
    by code_simp
  have i1: "resolve id_only_frame monthly_names = None"
    "resolve id_only_frame tenure_group_names = None"
    "resolve id_only_frame internet_names = None"
    "resolve id_only_frame churn_names = None"
    "n_rows id_only_frame = 2"
    by code_simp+
  have c: "analyze_and_save num_str_plain id_only_frame = Inr [AnalysisSummary None 2]"
    using summary_artifact [of id_only_frame num_str_plain] i i1 by simp
  from e a s b i c show ?thesis
    by blast
qed

text \<open>
  C1 as stated fails: for the empty result of the remote store nothing is written, so
  there is no summary artifact with a row count of 0.
\<close>

theorem analyze_empty_counterexample:
  "analyze_and_save num_str_plain empty_frame = Inr [] \<and>
   analyze_and_save num_str_plain empty_frame \<noteq> Inr [AnalysisSummary None 0]"
  by (simp add: analyze_and_save_def df_empty_def empty_frame_def)

text \<open>
  A dataframe in which no row counts as churned: the crosstab has no column for the
  flag value True, reading it raises KeyError, and no artifact is written.
\<close>

lemma analyze_nobody_churned:
  "analyze_and_save num_str_plain nobody_churned_frame = Inl (KeyError ''churn_pct'')"
  by code_simp

text \<open>
  C8. In the churn-vs-tenure pivot that \<open>analyze_and_save\<close> writes, the no-churn
  percentage and the churn percentage of every row add up to 100, the row of the
  MISSING bucket included. Percentages are exact rationals here; the floating-point
  result differs from 100 by rounding only.
\<close>

theorem pivot_rows_sum_to_100:
  assumes "analyze_and_save num_str df = Inr arts"
    and "ChurnVsTenurePivot rows \<in> set arts"
    and "(g, no, yes) \<in> set rows"
  shows "no + yes = 100"
proof -
  from assms(1,2) obtain avg pivot where
    p: "churn_vs_tenure num_str df = Inr pivot"
    and arts: "ChurnVsTenurePivot rows \<in>
       set (detail_artifacts avg (tenure_counts df) (internet_dist df) pivot)"
    by (auto simp: analyze_and_save_def and_then_def split: if_splits sum.splits)
  from arts have "pivot = Some rows"
    by (rule pivot_in_details)
  with p assms(3) show ?thesis
    by (simp add: churn_vs_tenure_rows)
qed

theorem pivot_rows_sum_to_100_witness:
  "analyze_and_save num_str_plain store_frame =
     Inr [AnalysisSummary (Some 50) 4,
          AvgMonthlyByContract
            [(Str ''One year'', Num 30), (Str ''Two year'', Num 70), (Null, Num 20)],
          TenureGroupCounts [(Str ''New'', 3), (Str ''MISSING'', 1)],
          InternetServiceDistribution [(Str ''DSL'', 2), (Str ''No'', 1), (Str ''MISSING'', 1)],
          ChurnVsTenurePivot [(Str ''New'', 200 / 3, 100 / 3), (Str ''MISSING'', 0, 100)]] \<and>
   (200 / 3 + 100 / 3 :: rat) = 100 \<and> (0 + 100 :: rat) = 100"
proof -
  let ?rows = "[(Str ''New'', 200 / 3, 100 / 3), (Str ''MISSING'', 0, 100 :: rat)]"
  let ?arts = "[AnalysisSummary (Some 50) 4,
          AvgMonthlyByContract
            [(Str ''One year'', Num 30), (Str ''Two year'', Num 70), (Null, Num 20)],
          TenureGroupCounts [(Str ''New'', 3), (Str ''MISSING'', 1)],
          InternetServiceDistribution [(Str ''DSL'', 2), (Str ''No'', 1), (Str ''MISSING'', 1)],
          ChurnVsTenurePivot ?rows]"
  have h1: "analyze_and_save num_str_plain store_frame = Inr ?arts"
    by code_simp
  have h2: "ChurnVsTenurePivot ?rows \<in> set ?arts"
    by simp
  have h3: "(Str ''New'', 200 / 3, 100 / 3) \<in> set ?rows"
    by simp
  have h4: "(Str ''MISSING'', 0, 100) \<in> set ?rows"
    by simp
  from pivot_rows_sum_to_100 [OF h1 h2 h3] pivot_rows_sum_to_100 [OF h1 h2 h4] h1
  show ?thesis
    by simp
qed

end
